theory Spec2Isabelle
  imports Main
begin

section \<open>Python values used by the generator\<close>

text \<open>
  The exceptions that the two source files can raise or mention:
  \<open>UnknownBuildType\<close> and \<open>UnresolvedDependency\<close> are imported from
  \<open>superflore.exceptions\<close>; \<open>IndexError\<close>, \<open>AttributeError\<close> and \<open>KeyError\<close> are
  the built-in exceptions of list indexing, of a method call on \<open>None\<close> and of the
  handler in \<open>regenerate_pkg\<close>.
\<close>

datatype error =
    UnknownBuildType string
  | UnresolvedDependency
  | IndexError
  | AttributeError
  | KeyError

text \<open>\<open>str(x)\<close> inside an f-string: \<open>None\<close> is printed as the word \<open>None\<close>.\<close>

fun py_str :: "string option \<Rightarrow> string" where
  "py_str None = ''None''"
| "py_str (Some s) = s"

text \<open>\<open>xs[i]\<close> for a non-negative index: out of range raises \<open>IndexError\<close>.\<close>

definition py_index :: "'a list \<Rightarrow> nat \<Rightarrow> error + 'a" where
  "py_index xs i = (if i < length xs then Inr (xs ! i) else Inl IndexError)"

text \<open>\<open>s.split(c)\<close> for a separator of one character: never empty.\<close>

fun str_split :: "char \<Rightarrow> string \<Rightarrow> string list" where
  "str_split c [] = [[]]"
| "str_split c (x # xs) =
     (if x = c then [] # str_split c xs
      else (case str_split c xs of
              [] \<Rightarrow> [[x]]
            | w # ws \<Rightarrow> (x # w) # ws))"

text \<open>\<open>sep.join(xs)\<close>.\<close>

fun str_join :: "string \<Rightarrow> string list \<Rightarrow> string" where
  "str_join sep [] = []"
| "str_join sep [x] = x"
| "str_join sep (x # y # ys) = x @ sep @ str_join sep (y # ys)"

text \<open>\<open>s.startswith(p)\<close>.\<close>

definition startswith :: "string \<Rightarrow> string \<Rightarrow> bool" where
  "startswith s p = (take (length p) s = p)"

text \<open>\<open>s.replace(old, new, 1)\<close>: the leftmost occurrence of \<open>old\<close> only.\<close>

fun replace_first :: "string \<Rightarrow> string \<Rightarrow> string \<Rightarrow> string" where
  "replace_first old new [] = (if old = [] then new else [])"
| "replace_first old new (x # xs) =
     (if startswith (x # xs) old then new @ drop (length old) (x # xs)
      else x # replace_first old new xs)"

section \<open>pkgbuild.py\<close>

definition depend_only_pkgs :: "string list" where
  "depend_only_pkgs = [''dev-util/gperf'', ''app-doc/doxygen'', ''virtual/pkgconfig'']"

record pkgbuild_keyword =
  arch :: string
  stable :: bool

definition to_string :: "pkgbuild_keyword \<Rightarrow> string" where
  "to_string k = (if stable k then arch k else ''~'' @ arch k)"

record PkgBuild =
  eapi :: string
  description :: string
  homepage :: string
  src_uri :: "string option"
  upstream_license :: "string list"
  keys :: "pkgbuild_keyword list"
  rdepends :: "string list"
  rdepends_external :: "string list"
  depends :: "string list"
  depends_external :: "string list"
  tdepends :: "string list"
  tdepends_external :: "string list"
  distro :: "string option"
  cmake_package :: bool
  base_yml :: "string option"
  version :: "string option"
  unresolved_deps :: "string list"
  name :: "string option"
  has_patches :: bool
  build_type :: string
  is_ros2 :: bool
  python_3 :: bool
  patches :: "string list option"
  illegal_desc_chars :: string

text \<open>\<open>PkgBuild.__init__\<close>.\<close>

definition PkgBuild_init :: PkgBuild where
  "PkgBuild_init = \<lparr>
     eapi = ''6'',
     description = '''',
     homepage = ''https://wiki.ros.org'',
     src_uri = None,
     upstream_license = [''LGPL-2''],
     keys = [],
     rdepends = [],
     rdepends_external = [],
     depends = [],
     depends_external = [],
     tdepends = [],
     tdepends_external = [],
     distro = None,
     cmake_package = True,
     base_yml = None,
     version = None,
     unresolved_deps = [],
     name = None,
     has_patches = False,
     build_type = ''catkin'',
     is_ros2 = False,
     python_3 = True,
     patches = Some [],
     illegal_desc_chars =
       ''()[]{}|^$'' @ [CHR 0x5C] @ ''#'' @
       [CHR 0x09, CHR 0x0A, CHR 0x0D, CHR 0x0B, CHR 0x0C, CHR 0x27, CHR 0x22, CHR 0x60]
   \<rparr>"

definition add_build_depend :: "PkgBuild \<Rightarrow> string \<Rightarrow> bool \<Rightarrow> PkgBuild" where
  "add_build_depend self depend internal =
     (if depend \<in> set (rdepends self) then self
      else if depend \<in> set (rdepends_external self) then self
      else if internal then self\<lparr>depends := depends self @ [depend]\<rparr>
      else self\<lparr>depends_external := depends_external self @ [depend]\<rparr>)"

definition add_run_depend :: "PkgBuild \<Rightarrow> string \<Rightarrow> bool \<Rightarrow> PkgBuild" where
  "add_run_depend self rdepend internal =
     (if rdepend \<in> set depend_only_pkgs \<and> \<not> internal
        then self\<lparr>depends_external := depends_external self @ [rdepend]\<rparr>
      else if internal then self\<lparr>rdepends := rdepends self @ [rdepend]\<rparr>
      else self\<lparr>rdepends_external := rdepends_external self @ [rdepend]\<rparr>)"

definition add_test_depend :: "PkgBuild \<Rightarrow> string \<Rightarrow> bool \<Rightarrow> PkgBuild" where
  "add_test_depend self tdepend internal =
     (if \<not> internal
        then self\<lparr>tdepends_external := tdepends_external self @ [tdepend]\<rparr>
      else self\<lparr>tdepends := tdepends self @ [tdepend]\<rparr>)"

definition add_keyword :: "PkgBuild \<Rightarrow> string \<Rightarrow> bool \<Rightarrow> PkgBuild" where
  "add_keyword self keyword stbl =
     self\<lparr>keys := keys self @ [\<lparr>arch = keyword, stable = stbl\<rparr>]\<rparr>"

definition get_eapi_line :: "PkgBuild \<Rightarrow> string" where
  "get_eapi_line self = ''EAPI='' @ eapi self @ ''\<newline>''"

definition get_inherit_line :: "PkgBuild \<Rightarrow> error + string" where
  "get_inherit_line self =
     (if build_type self \<in> set [''catkin'', ''cmake'']
        then Inr ''inherit ros-cmake\<newline>\<newline>''
      else if build_type self = ''ament_python''
        then Inr ''inherit ament-python\<newline>\<newline>''
      else if build_type self = ''ament_cmake''
        then Inr ''inherit ament-cmake\<newline>\<newline>''
      else Inl (UnknownBuildType (build_type self)))"

definition get_unresolved :: "PkgBuild \<Rightarrow> string list" where
  "get_unresolved self = unresolved_deps self"


subsection \<open>Rendering\<close>

text \<open>
  The loop \<open>for i, dep in enumerate(dependencies)\<close> of \<open>get_pkgbuild_text\<close>: the
  entry at index \<open>i\<close> is overwritten in place when it starts with \<open>python3\<close>.
\<close>

function rewrite_python3 :: "nat \<Rightarrow> string list \<Rightarrow> string list" where
  "rewrite_python3 i dependencies =
     (if i < length dependencies
      then rewrite_python3 (Suc i)
             (if startswith (dependencies ! i) ''python3''
              then dependencies[i := replace_first ''python3'' ''python'' (dependencies ! i)]
              else dependencies)
      else dependencies)"
  by pat_completeness auto
termination
  by (relation "measure (\<lambda>(i, ds). length ds - i)") auto

declare rewrite_python3.simps [simp del]

text \<open>\<open>f"ros-{self.distro}-{d}"\<close>.\<close>

definition ros_name :: "PkgBuild \<Rightarrow> string \<Rightarrow> string" where
  "ros_name self d = ''ros-'' @ py_str (distro self) @ ''-'' @ d"

definition makedepends_line :: "PkgBuild \<Rightarrow> string" where
  "makedepends_line self =
     (let ros_deps = map (ros_name self) (depends self);
          dependencies = rewrite_python3 0 (ros_deps @ depends_external self)
      in ''makedepends=('' @ str_join '' '' dependencies @ '')'')"

definition depends_line :: "PkgBuild \<Rightarrow> string" where
  "depends_line self =
     (let ros_rdeps = map (ros_name self) (rdepends self);
          rdependencies = rewrite_python3 0 (ros_rdeps @ rdepends_external self)
      in ''depends=('' @ str_join '' '' rdependencies @ '')'')"

definition license_line :: "PkgBuild \<Rightarrow> string" where
  "license_line self =
     (let license_str = map (\<lambda>ul. [CHR 0x27] @ ul @ [CHR 0x27]) (upstream_license self)
      in ''license=('' @ str_join '' '' license_str @ '')'')"

definition build_block :: "PkgBuild \<Rightarrow> string" where
  "build_block self =
     ''\<newline>build() {\<newline>    cd '' @ [CHR 0x22] @ ''${srcdir}'' @ [CHR 0x22] @
     ''\<newline>    [ -f /opt/ros/'' @ py_str (distro self) @
     ''/setup.bash ] && source /opt/ros/'' @ py_str (distro self) @ ''/setup.bash'' @
     ''\<newline>    colcon build\<newline>}\<newline>''"

definition pkgdir_path :: "PkgBuild \<Rightarrow> string" where
  "pkgdir_path self =
     [CHR 0x22] @ ''${pkgdir}'' @ [CHR 0x22] @ ''/opt/ros/'' @ py_str (distro self)"

definition package_block :: "PkgBuild \<Rightarrow> string" where
  "package_block self =
     ''\<newline>package() {\<newline>    cd '' @ [CHR 0x22] @ ''${srcdir}'' @ [CHR 0x22] @
     ''\<newline>    colcon build --install-base '' @ pkgdir_path self @
     ''\<newline>    rm '' @ pkgdir_path self @ ''/*setup*'' @
     ''\<newline>    rm '' @ pkgdir_path self @ ''/COLCON_IGNORE'' @
     ''\<newline>    rm '' @ pkgdir_path self @ ''/.colcon_install_layout'' @
     ''\<newline>    chown -R ros:ros '' @ pkgdir_path self @
     ''\<newline>    chmod -R 777 '' @ pkgdir_path self @
     ''\<newline>}\<newline>''"

text \<open>
  The list \<open>entries\<close> of \<open>get_pkgbuild_text\<close>, once the description has been
  cleaned. \<open>self.version.split("-")\<close> raises \<open>AttributeError\<close> when the version is
  still \<open>None\<close>, and the index \<open>[1]\<close> raises \<open>IndexError\<close> when there is no second
  segment.
\<close>

definition pkgbuild_entries :: "PkgBuild \<Rightarrow> error + string list" where
  "pkgbuild_entries self =
     (case version self of
        None \<Rightarrow> Inl AttributeError
      | Some v \<Rightarrow>
          (case py_index (str_split CHR ''-'' v) 0 of
             Inl e \<Rightarrow> Inl e
           | Inr version_str \<Rightarrow>
               (case py_index (str_split CHR ''-'' v) 1 of
                  Inl e \<Rightarrow> Inl e
                | Inr segment \<Rightarrow>
                    (let rc = drop 1 segment in
                     Inr [''# Script generated with superflore'',
                          ''# Maintainer: Sebastian Mai <sebastian.mai@ovgu.de>'',
                          ''pkgname='' @ [CHR 0x27] @ ''ros-'' @ py_str (distro self) @ ''-'' @
                            py_str (name self) @ [CHR 0x27],
                          ''pkgdesc='' @ [CHR 0x22] @ description self @ [CHR 0x22],
                          ''url='' @ homepage self,
                          ''pkgver='' @ version_str,
                          ''arch=('' @ [CHR 0x27] @ ''any'' @ [CHR 0x27] @ '')'',
                          ''pkgrel='' @ rc,
                          license_line self,
                          ''epoch=0'',
                          ''groups=('' @ [CHR 0x27] @ ''ros'' @ [CHR 0x27] @ '' '' @
                            [CHR 0x27] @ ''ros-'' @ py_str (distro self) @ [CHR 0x27] @ '')'',
                          makedepends_line self,
                          depends_line self,
                          ''source=('' @ [CHR 0x22] @ ''ros-'' @ py_str (distro self) @ ''-'' @
                            py_str (name self) @ ''-'' @ v @ ''.tar.gz::'' @
                            py_str (src_uri self) @ [CHR 0x22] @ '')'',
                          ''md5sums=('' @ [CHR 0x27] @ ''SKIP'' @ [CHR 0x27] @ '')'',
                          build_block self,
                          package_block self]))))"

text \<open>
  \<open>get_pkgbuild_text\<close>. \<open>sanitize_string\<close> and \<open>trim_string\<close> are imported from
  \<open>superflore.utils\<close>, which is not among the source files: they are parameters.
  The description is overwritten before anything can fail, so the model is returned
  with the result. Neither \<open>distributor\<close> nor \<open>license_text\<close> is read.
\<close>

definition get_pkgbuild_text ::
  "(string \<Rightarrow> string \<Rightarrow> string) \<Rightarrow> (string \<Rightarrow> string) \<Rightarrow>
   PkgBuild \<Rightarrow> string \<Rightarrow> string \<Rightarrow> PkgBuild \<times> (error + string)" where
  "get_pkgbuild_text sanitize_string trim_string self distributor license_text =
     (let self1 = self\<lparr>description :=
                    sanitize_string (description self) (illegal_desc_chars self)\<rparr>;
          self2 = self1\<lparr>description := trim_string (description self1)\<rparr>
      in (self2,
          (case pkgbuild_entries self2 of
             Inl e \<Rightarrow> Inl e
           | Inr entries \<Rightarrow> Inr (str_join ''\<newline>'' entries))))"

text \<open>
  Modelled from the spec: \<open>sanitize_string\<close> of \<open>superflore.utils\<close>, which is not among
  the source files. The spec: "removing each character in the illegal set from the raw
  description".
\<close>

definition sanitize_string_spec :: "string \<Rightarrow> string \<Rightarrow> string" where
  "sanitize_string_spec s illegal = filter (\<lambda>c. c \<notin> set illegal) s"

text \<open>
  Modelled from the spec: \<open>trim_string\<close> of \<open>superflore.utils\<close>, which is not among the
  source files. The spec: "truncating to the format's maximum field length (collapse
  overlong text with a trailing marker)"; the length and the marker are configuration
  constants, here parameters.
\<close>

definition trim_string_spec :: "nat \<Rightarrow> string \<Rightarrow> string \<Rightarrow> string" where
  "trim_string_spec max_length marker s =
     (if length s \<le> max_length then s
      else take (max_length - length marker) s @ marker)"


section \<open>gen\_packages.py\<close>

definition no_python3 :: "string list" where
  "no_python3 = [''tf'']"

definition org :: string where
  "org = ''Open Source Robotics Foundation''"

definition org_license :: string where
  "org_license = ''BSD''"

text \<open>
  \<open>PackageMetadata\<close> comes from \<open>superflore.PackageMetadata\<close>, which is not among the
  source files; the builder reads these four attributes of it.
\<close>

record PackageMetadata =
  pkg_upstream_license :: "string list"
  pkg_description :: string
  pkg_homepage :: string
  pkg_build_type :: string

text \<open>
  \<open>_gen_pkgbuild_for_package\<close>. What the collaborators return is given: the name of
  the distribution, the archive URI \<open>pkg_rosinstall[0]['tar']['uri']\<close>, the package
  names \<open>get_package_names(distro)[0]\<close>, the four dependency lists of the dependency
  walker in the order the loops visit them, and the outcome of
  \<open>retry_on_exception(ros_pkg.get_package_xml, distro.name)\<close> followed by
  \<open>PackageMetadata\<close>: \<open>None\<close> when the fetch raised. The second component is the list
  of messages passed to \<open>warn\<close>.
\<close>

definition gen_pkgbuild_for_package ::
  "string \<Rightarrow> string \<Rightarrow> string \<Rightarrow> string list \<Rightarrow>
   string list \<Rightarrow> string list \<Rightarrow> string list \<Rightarrow> string list \<Rightarrow>
   PackageMetadata option \<Rightarrow> PkgBuild \<times> string list" where
  "gen_pkgbuild_for_package distro_name pkg_name uri pkg_names
     pkg_buildtool_deps pkg_build_deps pkg_run_deps pkg_test_deps fetched =
     (let pkg_pkgbuild = PkgBuild_init\<lparr>distro := Some distro_name, src_uri := Some uri\<rparr>;
          pkg_keywords = [''x86'', ''amd64'', ''arm'', ''arm64''];
          pkg_pkgbuild = foldl (\<lambda>p rdep. add_run_depend p rdep (rdep \<in> set pkg_names))
                           pkg_pkgbuild pkg_run_deps;
          pkg_pkgbuild = foldl (\<lambda>p bdep. add_build_depend p bdep (bdep \<in> set pkg_names))
                           pkg_pkgbuild pkg_build_deps;
          pkg_pkgbuild = foldl (\<lambda>p tdep. add_build_depend p tdep (tdep \<in> set pkg_names))
                           pkg_pkgbuild pkg_buildtool_deps;
          pkg_pkgbuild = foldl (\<lambda>p test_dep. add_test_depend p test_dep (test_dep \<in> set pkg_names))
                           pkg_pkgbuild pkg_test_deps;
          pkg_pkgbuild = foldl (\<lambda>p key. add_keyword p key False) pkg_pkgbuild pkg_keywords
      in (case fetched of
            None \<Rightarrow> (pkg_pkgbuild, [''fetch metadata for package '' @ pkg_name])
          | Some pkg \<Rightarrow>
              (pkg_pkgbuild\<lparr>upstream_license := pkg_upstream_license pkg,
                            description := pkg_description pkg,
                            homepage := pkg_homepage pkg,
                            build_type := pkg_build_type pkg\<rparr>, [])))"

text \<open>\<open>arch_pkgbuild.__init__\<close> and \<open>arch_pkgbuild.pkgbuild_text\<close>.\<close>

definition arch_pkgbuild_init ::
  "string \<Rightarrow> string \<Rightarrow> string \<Rightarrow> string list \<Rightarrow>
   string list \<Rightarrow> string list \<Rightarrow> string list \<Rightarrow> string list \<Rightarrow>
   PackageMetadata option \<Rightarrow> bool \<Rightarrow> PkgBuild \<times> string list" where
  "arch_pkgbuild_init distro_name pkg_name uri pkg_names
     pkg_buildtool_deps pkg_build_deps pkg_run_deps pkg_test_deps fetched has_patches_arg =
     (case gen_pkgbuild_for_package distro_name pkg_name uri pkg_names
             pkg_buildtool_deps pkg_build_deps pkg_run_deps pkg_test_deps fetched of
        (pkgbuild, warnings) \<Rightarrow>
          (let pkgbuild = pkgbuild\<lparr>has_patches := has_patches_arg\<rparr>
           in (if pkg_name \<in> set no_python3 then pkgbuild\<lparr>python_3 := False\<rparr> else pkgbuild,
               warnings)))"

definition pkgbuild_text ::
  "(string \<Rightarrow> string \<Rightarrow> string) \<Rightarrow> (string \<Rightarrow> string) \<Rightarrow>
   PkgBuild \<Rightarrow> PkgBuild \<times> (error + string)" where
  "pkgbuild_text sanitize_string trim_string pkgbuild =
     get_pkgbuild_text sanitize_string trim_string pkgbuild org org_license"

text \<open>
  The part of \<open>regenerate_pkg\<close> between the construction of \<open>current\<close> and the
  creation of the directory: four fields are assigned, the text is rendered, and of
  the exceptions of rendering only \<open>UnresolvedDependency\<close> is turned into a result
  (no text, the unresolved names); \<open>KeyError\<close> is raised again and every other
  exception passes through.
\<close>

definition regenerate_pkg_render ::
  "(string \<Rightarrow> string \<Rightarrow> string) \<Rightarrow> (string \<Rightarrow> string) \<Rightarrow>
   PkgBuild \<Rightarrow> string \<Rightarrow> string \<Rightarrow> string list option \<Rightarrow> bool \<Rightarrow>
   error + (string option \<times> string list)" where
  "regenerate_pkg_render sanitize_string trim_string current pkg version_arg patches_arg ros2 =
     (let current = current\<lparr>name := Some pkg, version := Some version_arg,
                             patches := patches_arg, is_ros2 := ros2\<rparr>
      in (case pkgbuild_text sanitize_string trim_string current of
            (current, Inl UnresolvedDependency) \<Rightarrow> Inr (None, get_unresolved current)
          | (current, Inl e) \<Rightarrow> Inl e
          | (current, Inr text) \<Rightarrow> Inr (Some text, [])))"

text \<open>
  The operations by which the two files change a \<open>PkgBuild\<close>: the four insertion
  methods, rendering, and the assignments made by the builder and by
  \<open>regenerate_pkg\<close>.
\<close>

datatype operation =
    AddBuildDepend string bool
  | AddRunDepend string bool
  | AddTestDepend string bool
  | AddKeyword string bool
  | Render string string
  | SetDistro string
  | SetSrcUri string
  | SetMetadata PackageMetadata
  | SetHasPatches bool
  | SetPython3 bool
  | SetName string
  | SetVersion string
  | SetPatches "string list option"
  | SetIsRos2 bool

fun apply_operation ::
  "(string \<Rightarrow> string \<Rightarrow> string) \<Rightarrow> (string \<Rightarrow> string) \<Rightarrow>
   PkgBuild \<Rightarrow> operation \<Rightarrow> PkgBuild" where
  "apply_operation san trim p (AddBuildDepend d i) = add_build_depend p d i"
| "apply_operation san trim p (AddRunDepend d i) = add_run_depend p d i"
| "apply_operation san trim p (AddTestDepend d i) = add_test_depend p d i"
| "apply_operation san trim p (AddKeyword k s) = add_keyword p k s"
| "apply_operation san trim p (Render distributor license_text) =
     fst (get_pkgbuild_text san trim p distributor license_text)"
| "apply_operation san trim p (SetDistro d) = p\<lparr>distro := Some d\<rparr>"
| "apply_operation san trim p (SetSrcUri u) = p\<lparr>src_uri := Some u\<rparr>"
| "apply_operation san trim p (SetMetadata pkg) =
     p\<lparr>upstream_license := pkg_upstream_license pkg,
       description := pkg_description pkg,
       homepage := pkg_homepage pkg,
       build_type := pkg_build_type pkg\<rparr>"
| "apply_operation san trim p (SetHasPatches b) = p\<lparr>has_patches := b\<rparr>"
| "apply_operation san trim p (SetPython3 b) = p\<lparr>python_3 := b\<rparr>"
| "apply_operation san trim p (SetName n) = p\<lparr>name := Some n\<rparr>"
| "apply_operation san trim p (SetVersion v) = p\<lparr>version := Some v\<rparr>"
| "apply_operation san trim p (SetPatches ps) = p\<lparr>patches := ps\<rparr>"
| "apply_operation san trim p (SetIsRos2 b) = p\<lparr>is_ros2 := b\<rparr>"

section \<open>Notions used in the statements\<close>

text \<open>The six dependency buckets of a model, and in how many of them a name occurs.\<close>

definition buckets :: "PkgBuild \<Rightarrow> string list list" where
  "buckets p = [depends p, depends_external p, rdepends p, rdepends_external p,
                tdepends p, tdepends_external p]"

definition bucket_count :: "PkgBuild \<Rightarrow> string \<Rightarrow> nat" where
  "bucket_count p d = length (filter (\<lambda>b. d \<in> set b) (buckets p))"

text \<open>Every name of the model occurs in at most one of the six buckets.\<close>

definition exclusive :: "PkgBuild \<Rightarrow> bool" where
  "exclusive p = list_all (\<lambda>d. bucket_count p d \<le> 1) (concat (buckets p))"

text \<open>No name of a build bucket occurs in a run bucket.\<close>

definition build_run_disjoint :: "PkgBuild \<Rightarrow> bool" where
  "build_run_disjoint p =
     list_all (\<lambda>d. d \<notin> set (rdepends p) \<and> d \<notin> set (rdepends_external p))
       (depends p @ depends_external p)"

text \<open>A model with one internal and one external run dependency, for examples.\<close>

definition run_model :: PkgBuild where
  "run_model = PkgBuild_init\<lparr>rdepends := [''roscpp''], rdepends_external := [''boost'']\<rparr>"

text \<open>
  The spec's words for the two parts of a version: the substring before the first
  separator, and the substring after it.
\<close>

definition before_first :: "char \<Rightarrow> string \<Rightarrow> string" where
  "before_first c s = takeWhile (\<lambda>x. x \<noteq> c) s"

definition after_first :: "char \<Rightarrow> string \<Rightarrow> string" where
  "after_first c s = drop 1 (dropWhile (\<lambda>x. x \<noteq> c) s)"

text \<open>
  The spec's words for the rewriting of an entry: one that begins with the Python 3
  marker \<open>python3\<close> begins with \<open>python\<close> instead.
\<close>

definition python_generic :: "string \<Rightarrow> string" where
  "python_generic e = (if take 7 e = ''python3'' then ''python'' @ drop 7 e else e)"

text \<open>
  The spec's words for the content of \<open>makedepends\<close>: the internal build dependencies
  prefixed, then the external ones, each rewritten, joined by spaces.
\<close>

definition makedepends_spec :: "PkgBuild \<Rightarrow> string" where
  "makedepends_spec p =
     str_join '' ''
       (map python_generic
          (map (\<lambda>d. ''ros-'' @ py_str (distro p) @ ''-'' @ d) (depends p) @ depends_external p))"

text \<open>
  The list \<open>entries\<close> that \<open>get_pkgbuild_text\<close> joins with newlines, and its entry at
  one index: \<open>pkgver\<close> is entry 5, \<open>pkgrel\<close> entry 7 and \<open>makedepends\<close> entry 11.
\<close>

definition rendered_entries ::
  "(string \<Rightarrow> string \<Rightarrow> string) \<Rightarrow> (string \<Rightarrow> string) \<Rightarrow> PkgBuild \<Rightarrow> error + string list" where
  "rendered_entries sanitize_string trim_string p =
     pkgbuild_entries (fst (get_pkgbuild_text sanitize_string trim_string p org org_license))"

definition rendered_entry ::
  "(string \<Rightarrow> string \<Rightarrow> string) \<Rightarrow> (string \<Rightarrow> string) \<Rightarrow> PkgBuild \<Rightarrow> nat \<Rightarrow> error + string" where
  "rendered_entry sanitize_string trim_string p k =
     (case rendered_entries sanitize_string trim_string p of
        Inl e \<Rightarrow> Inl e
      | Inr entries \<Rightarrow> py_index entries k)"

text \<open>A model filled in as the builder does, with a given version, for examples.\<close>

definition example_model :: "string \<Rightarrow> PkgBuild" where
  "example_model v =
     PkgBuild_init\<lparr>distro := Some ''humble'', name := Some ''foo'', version := Some v,
       src_uri := Some ''https://example.org/foo.tar.gz'',
       depends := [''roscpp''], depends_external := [''python3-numpy'']\<rparr>"

text \<open>
  The model that the five loops of the builder produce from the dependency lists, in
  closed form: run dependencies are split by membership in the package names, with
  the external names of \<open>depend_only_pkgs\<close> diverted to the external build bucket;
  build and build-tool dependencies are kept unless they are in a run bucket; test
  dependencies are split by membership alone.
\<close>

definition classified ::
  "string \<Rightarrow> string \<Rightarrow> string list \<Rightarrow> string list \<Rightarrow> string list \<Rightarrow> string list \<Rightarrow>
   string list \<Rightarrow> PkgBuild" where
  "classified distro_name uri pkg_names buildtool_deps build_deps run_deps test_deps =
     PkgBuild_init\<lparr>
       distro := Some distro_name,
       src_uri := Some uri,
       rdepends := filter (\<lambda>d. d \<in> set pkg_names) run_deps,
       rdepends_external :=
         filter (\<lambda>d. d \<notin> set pkg_names \<and> d \<notin> set depend_only_pkgs) run_deps,
       depends :=
         filter (\<lambda>d. d \<in> set pkg_names \<and> d \<notin> set run_deps) (build_deps @ buildtool_deps),
       depends_external :=
         filter (\<lambda>d. d \<notin> set pkg_names \<and> d \<in> set depend_only_pkgs) run_deps @
         filter (\<lambda>d. d \<notin> set pkg_names \<and> \<not> (d \<in> set run_deps \<and> d \<notin> set depend_only_pkgs))
           (build_deps @ buildtool_deps),
       tdepends := filter (\<lambda>d. d \<in> set pkg_names) test_deps,
       tdepends_external := filter (\<lambda>d. d \<notin> set pkg_names) test_deps,
       keys := map (\<lambda>k. \<lparr>arch = k, stable = False\<rparr>) [''x86'', ''amd64'', ''arm'', ''arm64'']\<rparr>"

section \<open>Properties\<close>

subsection \<open>The list of unresolved dependencies\<close>

lemma add_build_depend_unresolved:
  "unresolved_deps (add_build_depend p d i) = unresolved_deps p"
  by (simp add: add_build_depend_def)

lemma add_run_depend_unresolved:
  "unresolved_deps (add_run_depend p d i) = unresolved_deps p"
  by (simp add: add_run_depend_def)

lemma add_test_depend_unresolved:
  "unresolved_deps (add_test_depend p d i) = unresolved_deps p"
  by (simp add: add_test_depend_def)

lemma add_keyword_unresolved:
  "unresolved_deps (add_keyword p k s) = unresolved_deps p"
  by (simp add: add_keyword_def)

lemma render_unresolved:
  "unresolved_deps (fst (get_pkgbuild_text san trim p a b)) = unresolved_deps p"
  by (simp add: get_pkgbuild_text_def Let_def)

lemma pkgbuild_entries_error:
  "pkgbuild_entries p = Inl e \<Longrightarrow> e = AttributeError \<or> e = IndexError"
  by (auto simp: pkgbuild_entries_def py_index_def Let_def
           split: option.splits if_splits sum.splits)

lemma render_error:
  "snd (get_pkgbuild_text san trim p a b) = Inl e \<Longrightarrow> e = AttributeError \<or> e = IndexError"
  by (auto simp: get_pkgbuild_text_def Let_def split: sum.splits dest: pkgbuild_entries_error)

lemma apply_operation_unresolved:
  "unresolved_deps (apply_operation san trim p x) = unresolved_deps p"
  by (cases x)
     (simp_all add: add_build_depend_unresolved add_run_depend_unresolved
        add_test_depend_unresolved add_keyword_unresolved render_unresolved)

lemma foldl_unresolved:
  "(\<And>p x. unresolved_deps (f p x) = unresolved_deps p) \<Longrightarrow>
   unresolved_deps (foldl f p xs) = unresolved_deps p"
  by (induction xs arbitrary: p) simp_all

lemma gen_unresolved:
  "unresolved_deps (fst (gen_pkgbuild_for_package dn pn uri names btd bd rd td fetched)) = []"
  by (simp add: gen_pkgbuild_for_package_def Let_def foldl_unresolved
        add_build_depend_unresolved add_run_depend_unresolved
        add_test_depend_unresolved add_keyword_unresolved PkgBuild_init_def
      split: option.splits)

lemma arch_unresolved:
  "unresolved_deps (fst (arch_pkgbuild_init dn pn uri names btd bd rd td fetched hp)) = []"
proof (cases "gen_pkgbuild_for_package dn pn uri names btd bd rd td fetched")
  case (Pair q w)
  then show ?thesis
    using gen_unresolved[of dn pn uri names btd bd rd td fetched]
    by (simp add: arch_pkgbuild_init_def Let_def)
qed

lemma regen_not_unresolved:
  "regenerate_pkg_render san trim cur pkg v ps r2 \<noteq> Inr (None, us)"
proof -
  let ?c = "cur\<lparr>name := Some pkg, version := Some v, patches := ps, is_ros2 := r2\<rparr>"
  obtain c' r where eq: "get_pkgbuild_text san trim ?c org org_license = (c', r)"
    by (cases "get_pkgbuild_text san trim ?c org org_license")
  then have "snd (get_pkgbuild_text san trim ?c org org_license) = r" by simp
  then have "r \<noteq> Inl UnresolvedDependency"
    using render_error[of san trim ?c org org_license UnresolvedDependency] by auto
  then show ?thesis using eq
    by (auto simp: regenerate_pkg_render_def pkgbuild_text_def Let_def
             split: sum.splits error.splits)
qed

text \<open>
  C4. The list of unresolved dependencies is empty in every state that the two files
  can reach: after any sequence of insertions, renderings and field assignments on a
  fresh model, in the model the builder returns, in the model \<open>arch_pkgbuild\<close> holds
  and after any further operations on it. So \<open>get_unresolved\<close> returns the empty
  list. Neither rendering nor \<open>get_inherit_line\<close> raises \<open>UnresolvedDependency\<close>, and
  \<open>regenerate_pkg\<close> never takes the branch that handles it.
\<close>

theorem unresolved_always_empty:
  "get_unresolved (foldl (apply_operation san trim) PkgBuild_init ops) = []
   \<and> get_unresolved (fst (gen_pkgbuild_for_package dn pn uri names btd bd rd td fetched)) = []
   \<and> get_unresolved (fst (arch_pkgbuild_init dn pn uri names btd bd rd td fetched hp)) = []
   \<and> get_unresolved (foldl (apply_operation san trim)
         (fst (arch_pkgbuild_init dn pn uri names btd bd rd td fetched hp)) ops) = []
   \<and> snd (get_pkgbuild_text san trim p distributor license_text) \<noteq> Inl UnresolvedDependency
   \<and> get_inherit_line p \<noteq> Inl UnresolvedDependency
   \<and> regenerate_pkg_render san trim p pkg v ps r2 \<noteq> Inr (None, us)"
proof -
  have ops: "\<And>q. unresolved_deps (foldl (apply_operation san trim) q ops) = unresolved_deps q"
    by (rule foldl_unresolved) (rule apply_operation_unresolved)
  have 1: "get_unresolved (foldl (apply_operation san trim) PkgBuild_init ops) = []"
    by (simp add: get_unresolved_def ops) (simp add: PkgBuild_init_def)
  have 2: "get_unresolved (fst (gen_pkgbuild_for_package dn pn uri names btd bd rd td fetched)) = []"
    by (simp add: get_unresolved_def gen_unresolved)
  have 3: "get_unresolved (fst (arch_pkgbuild_init dn pn uri names btd bd rd td fetched hp)) = []"
    by (simp add: get_unresolved_def arch_unresolved)
  have 4: "get_unresolved (foldl (apply_operation san trim)
         (fst (arch_pkgbuild_init dn pn uri names btd bd rd td fetched hp)) ops) = []"
    by (simp add: get_unresolved_def ops arch_unresolved)
  have 5: "snd (get_pkgbuild_text san trim p distributor license_text) \<noteq> Inl UnresolvedDependency"
    using render_error[of san trim p distributor license_text UnresolvedDependency] by auto
  have 6: "get_inherit_line p \<noteq> Inl UnresolvedDependency"
    by (simp add: get_inherit_line_def)
  have 7: "regenerate_pkg_render san trim p pkg v ps r2 \<noteq> Inr (None, us)"
    by (rule regen_not_unresolved)
  from 1 2 3 4 5 6 7 show ?thesis by blast
qed

subsection \<open>What rendering does not read\<close>

lemma ros_name_cong: "distro m' = distro m \<Longrightarrow> ros_name m' = ros_name m"
  by (simp add: ros_name_def fun_eq_iff)

lemma makedepends_line_cong:
  "distro m' = distro m \<Longrightarrow> depends m' = depends m \<Longrightarrow>
   depends_external m' = depends_external m \<Longrightarrow> makedepends_line m' = makedepends_line m"
  using ros_name_cong[of m' m] by (simp only: makedepends_line_def)

lemma depends_line_cong:
  "distro m' = distro m \<Longrightarrow> rdepends m' = rdepends m \<Longrightarrow>
   rdepends_external m' = rdepends_external m \<Longrightarrow> depends_line m' = depends_line m"
  using ros_name_cong[of m' m] by (simp only: depends_line_def)

lemma license_line_cong:
  "upstream_license m' = upstream_license m \<Longrightarrow> license_line m' = license_line m"
  by (simp only: license_line_def)

lemma build_block_cong: "distro m' = distro m \<Longrightarrow> build_block m' = build_block m"
  by (simp only: build_block_def)

lemma package_block_cong: "distro m' = distro m \<Longrightarrow> package_block m' = package_block m"
  by (simp only: package_block_def pkgdir_path_def)

lemma pkgbuild_entries_cong:
  assumes "version m' = version m" "distro m' = distro m" "name m' = name m"
    "description m' = description m" "homepage m' = homepage m"
    "upstream_license m' = upstream_license m" "src_uri m' = src_uri m"
    "depends m' = depends m" "depends_external m' = depends_external m"
    "rdepends m' = rdepends m" "rdepends_external m' = rdepends_external m"
  shows "pkgbuild_entries m' = pkgbuild_entries m"
  unfolding pkgbuild_entries_def
  by (simp only: assms makedepends_line_cong[of m' m] depends_line_cong[of m' m]
        license_line_cong[of m' m] build_block_cong[of m' m] package_block_cong[of m' m])

text \<open>
  C5. The result of rendering, text or error, is the same for two models that differ
  only in the test-dependency buckets, the keywords, the build type and the flags
  \<open>python_3\<close> and \<open>is_ros2\<close>: none of them is read by \<open>get_pkgbuild_text\<close>.
\<close>

theorem render_ignores_untracked:
  "snd (get_pkgbuild_text san trim
          (m\<lparr>tdepends := td, tdepends_external := tde, keys := ks,
             build_type := bt, python_3 := p3, is_ros2 := r2\<rparr>) distributor license_text)
   = snd (get_pkgbuild_text san trim m distributor license_text)"
proof -
  let ?d = "trim (san (description m) (illegal_desc_chars m))"
  have "pkgbuild_entries (m\<lparr>tdepends := td, tdepends_external := tde, keys := ks,
             build_type := bt, python_3 := p3, is_ros2 := r2, description := ?d\<rparr>)
        = pkgbuild_entries (m\<lparr>description := ?d\<rparr>)"
    by (rule pkgbuild_entries_cong) simp_all
  then show ?thesis
    by (simp add: get_pkgbuild_text_def Let_def)
qed

subsection \<open>Insertion of build and run dependencies\<close>

text \<open>
  C6. \<open>add_build_depend\<close> leaves the model as it is when the name is in a run bucket,
  internal or external. Otherwise it appends the name to \<open>depends\<close> when \<open>internal\<close>
  holds and to \<open>depends_external\<close> when not, and a second call with the same name
  appends it a second time.
\<close>

theorem add_build_depend_cases:
  "(d \<in> set (rdepends m) \<or> d \<in> set (rdepends_external m) \<longrightarrow> add_build_depend m d i = m) \<and>
   (d \<notin> set (rdepends m) \<and> d \<notin> set (rdepends_external m) \<longrightarrow>
      add_build_depend m d True = m\<lparr>depends := depends m @ [d]\<rparr> \<and>
      add_build_depend m d False = m\<lparr>depends_external := depends_external m @ [d]\<rparr> \<and>
      add_build_depend (add_build_depend m d True) d True = m\<lparr>depends := depends m @ [d, d]\<rparr> \<and>
      add_build_depend (add_build_depend m d False) d False =
        m\<lparr>depends_external := depends_external m @ [d, d]\<rparr>)"
  by (simp add: add_build_depend_def)

theorem add_build_depend_cases_witness:
  "''boost'' \<in> set (rdepends_external run_model) \<and>
   add_build_depend run_model ''boost'' False = run_model \<and>
   ''cmake'' \<notin> set (rdepends run_model) \<and> ''cmake'' \<notin> set (rdepends_external run_model) \<and>
   depends_external (add_build_depend (add_build_depend run_model ''cmake'' False) ''cmake'' False)
     = [''cmake'', ''cmake'']"
proof -
  have a: "''boost'' \<in> set (rdepends_external run_model)"
    by (simp add: run_model_def PkgBuild_init_def)
  have b: "''cmake'' \<notin> set (rdepends run_model) \<and> ''cmake'' \<notin> set (rdepends_external run_model)"
    by (simp add: run_model_def PkgBuild_init_def)
  have c: "depends_external run_model = []"
    by (simp add: run_model_def PkgBuild_init_def)
  from a have 1: "add_build_depend run_model ''boost'' False = run_model"
    using add_build_depend_cases[of "''boost''" run_model False] by blast
  from b have 2: "add_build_depend (add_build_depend run_model ''cmake'' False) ''cmake'' False =
        run_model\<lparr>depends_external := depends_external run_model @ [''cmake'', ''cmake'']\<rparr>"
    using add_build_depend_cases[of "''cmake''" run_model False] by blast
  show ?thesis using a b 1 by (simp add: 2 c)
qed

text \<open>
  C2 as stated fails: \<open>dev-util/gperf\<close> is in the list, and added as an external run
  dependency to a fresh model it reaches neither run bucket but the external build
  bucket.
\<close>

theorem add_run_depend_allow_list_counterexample:
  "''dev-util/gperf'' \<in> set depend_only_pkgs \<and>
   ''dev-util/gperf'' \<notin> set (rdepends_external (add_run_depend PkgBuild_init ''dev-util/gperf'' False)) \<and>
   ''dev-util/gperf'' \<notin> set (rdepends (add_run_depend PkgBuild_init ''dev-util/gperf'' False)) \<and>
   depends_external (add_run_depend PkgBuild_init ''dev-util/gperf'' False) = [''dev-util/gperf'']"
  by (simp add: add_run_depend_def depend_only_pkgs_def PkgBuild_init_def)

text \<open>
  C2, as amended. A name of \<open>depend_only_pkgs\<close> given as external is appended to the
  external build bucket \<open>depends_external\<close>, and no run bucket changes. Any name given
  as internal is appended to \<open>rdepends\<close>; any other name given as external is appended
  to \<open>rdepends_external\<close>. In these two cases the name is afterwards in the run bucket
  it was routed to, and in that one only when it was not in the other run bucket
  before.
\<close>

theorem add_run_depend_routing:
  "(d \<in> set depend_only_pkgs \<and> \<not> i \<longrightarrow>
      add_run_depend m d i = m\<lparr>depends_external := depends_external m @ [d]\<rparr>) \<and>
   (i \<longrightarrow> add_run_depend m d i = m\<lparr>rdepends := rdepends m @ [d]\<rparr>) \<and>
   (d \<notin> set depend_only_pkgs \<and> \<not> i \<longrightarrow>
      add_run_depend m d i = m\<lparr>rdepends_external := rdepends_external m @ [d]\<rparr>) \<and>
   (i \<and> d \<notin> set (rdepends_external m) \<longrightarrow>
      d \<in> set (rdepends (add_run_depend m d i)) \<and>
      d \<notin> set (rdepends_external (add_run_depend m d i))) \<and>
   (d \<notin> set depend_only_pkgs \<and> \<not> i \<and> d \<notin> set (rdepends m) \<longrightarrow>
      d \<in> set (rdepends_external (add_run_depend m d i)) \<and>
      d \<notin> set (rdepends (add_run_depend m d i)))"
  by (simp add: add_run_depend_def)

theorem add_run_depend_routing_witness:
  "''app-doc/doxygen'' \<in> set depend_only_pkgs \<and>
   add_run_depend PkgBuild_init ''app-doc/doxygen'' False =
     PkgBuild_init\<lparr>depends_external := [''app-doc/doxygen'']\<rparr> \<and>
   add_run_depend PkgBuild_init ''app-doc/doxygen'' True =
     PkgBuild_init\<lparr>rdepends := [''app-doc/doxygen'']\<rparr> \<and>
   ''boost'' \<notin> set depend_only_pkgs \<and>
   ''boost'' \<notin> set (rdepends PkgBuild_init) \<and>
   add_run_depend PkgBuild_init ''boost'' False =
     PkgBuild_init\<lparr>rdepends_external := [''boost'']\<rparr> \<and>
   ''boost'' \<in> set (rdepends_external (add_run_depend PkgBuild_init ''boost'' False)) \<and>
   ''boost'' \<notin> set (rdepends (add_run_depend PkgBuild_init ''boost'' False))"
proof -
  have a: "''app-doc/doxygen'' \<in> set depend_only_pkgs" by (simp add: depend_only_pkgs_def)
  have b: "''boost'' \<notin> set depend_only_pkgs" by (simp add: depend_only_pkgs_def)
  have c: "''boost'' \<notin> set (rdepends PkgBuild_init)" by (simp add: PkgBuild_init_def)
  have e: "depends_external PkgBuild_init = [] \<and> rdepends PkgBuild_init = [] \<and>
           rdepends_external PkgBuild_init = []" by (simp add: PkgBuild_init_def)
  show ?thesis
    using a b c e
      add_run_depend_routing[of "''app-doc/doxygen''" False PkgBuild_init]
      add_run_depend_routing[of "''app-doc/doxygen''" True PkgBuild_init]
      add_run_depend_routing[of "''boost''" False PkgBuild_init]
    by simp
qed

subsection \<open>Splitting, replacing and the rewriting loop\<close>

lemma before_first_no_sep: "c \<notin> set s \<Longrightarrow> before_first c s = s"
  by (induction s) (auto simp: before_first_def)

lemma str_split_not_Nil: "str_split c s \<noteq> []"
  by (induction s) (auto split: list.splits)

lemma str_split_no_sep: "c \<notin> set s \<Longrightarrow> str_split c s = [s]"
  by (induction s) auto

lemma str_split_sep:
  "c \<in> set s \<Longrightarrow> str_split c s = before_first c s # str_split c (after_first c s)"
proof (induction s)
  case Nil
  then show ?case by simp
next
  case (Cons x s)
  show ?case
  proof (cases "x = c")
    case True
    then show ?thesis by (simp add: before_first_def after_first_def)
  next
    case False
    with Cons.prems have "c \<in> set s" by simp
    then have "str_split c s = before_first c s # str_split c (after_first c s)"
      by (rule Cons.IH)
    with False show ?thesis by (simp add: before_first_def after_first_def)
  qed
qed

lemma str_split_hd: "py_index (str_split c s) 0 = Inr (before_first c s)"
proof (cases "c \<in> set s")
  case True
  then show ?thesis by (simp add: str_split_sep py_index_def)
next
  case False
  then show ?thesis by (simp add: str_split_no_sep py_index_def before_first_no_sep)
qed

lemma str_split_second_no_sep: "c \<notin> set s \<Longrightarrow> py_index (str_split c s) 1 = Inl IndexError"
  by (simp add: str_split_no_sep py_index_def)

lemma str_split_second:
  "c \<in> set s \<Longrightarrow> py_index (str_split c s) 1 = Inr (before_first c (after_first c s))"
proof -
  assume a: "c \<in> set s"
  obtain w ws where ws: "str_split c (after_first c s) = w # ws"
    using str_split_not_Nil[of c "after_first c s"] by (cases "str_split c (after_first c s)") auto
  have "py_index (str_split c (after_first c s)) 0 = Inr (before_first c (after_first c s))"
    by (rule str_split_hd)
  with ws have "w = before_first c (after_first c s)" by (simp add: py_index_def)
  with a ws show ?thesis by (simp add: str_split_sep py_index_def)
qed

lemma replace_first_prefix:
  "startswith e old \<Longrightarrow> replace_first old new e = new @ drop (length old) e"
  by (cases e) (auto simp: startswith_def)

lemma rewrite_entry:
  "(if startswith e ''python3'' then replace_first ''python3'' ''python'' e else e) = python_generic e"
proof -
  have len: "length ''python3'' = 7" by simp
  have sw: "startswith e ''python3'' = (take 7 e = ''python3'')"
    by (simp only: startswith_def len)
  show ?thesis
  proof (cases "startswith e ''python3''")
    case True
    then have "replace_first ''python3'' ''python'' e = ''python'' @ drop 7 e"
      by (simp only: replace_first_prefix len)
    with True sw show ?thesis by (simp only: python_generic_def if_True)
  next
    case False
    with sw show ?thesis by (simp only: python_generic_def if_False)
  qed
qed

lemma rewrite_python3_from:
  "rewrite_python3 i ds = take i ds @ map python_generic (drop i ds)"
proof (induction i ds rule: rewrite_python3.induct)
  case (1 i ds)
  show ?case
  proof (cases "i < length ds")
    case False
    then show ?thesis by (subst rewrite_python3.simps) simp
  next
    case True
    let ?ds' = "if startswith (ds ! i) ''python3''
                then ds[i := replace_first ''python3'' ''python'' (ds ! i)] else ds"
    have eq: "?ds' = ds[i := python_generic (ds ! i)]"
      using rewrite_entry[of "ds ! i"] by (auto split: if_splits)
    have "rewrite_python3 i ds = rewrite_python3 (Suc i) ?ds'"
      using True by (subst rewrite_python3.simps) simp
    also have "\<dots> = take (Suc i) ?ds' @ map python_generic (drop (Suc i) ?ds')"
      using True by (rule "1.IH")
    also have "\<dots> = take i ds @ map python_generic (drop i ds)"
    proof -
      have t: "take (Suc i) (ds[i := python_generic (ds ! i)]) = take i ds @ [python_generic (ds ! i)]"
        using True by (simp add: take_Suc_conv_app_nth)
      have d: "drop (Suc i) (ds[i := python_generic (ds ! i)]) = drop (Suc i) ds"
        by simp
      have c: "drop i ds = ds ! i # drop (Suc i) ds"
        using True by (simp add: Cons_nth_drop_Suc)
      show ?thesis
        unfolding eq t d by (subst c) simp
    qed
    finally show ?thesis .
  qed
qed

lemma rewrite_python3_map: "rewrite_python3 0 ds = map python_generic ds"
  by (simp only: rewrite_python3_from take_0 drop_0 append_Nil)

lemma makedepends_line_spec:
  "makedepends_line p = ''makedepends=('' @ makedepends_spec p @ '')''"
proof -
  have "ros_name p = (\<lambda>d. ''ros-'' @ py_str (distro p) @ ''-'' @ d)"
    by (rule ext) (simp only: ros_name_def)
  then show ?thesis
    by (simp only: makedepends_line_def makedepends_spec_def Let_def rewrite_python3_map)
qed

subsection \<open>The rendered entries\<close>

lemma cleaned_fields:
  "version (fst (get_pkgbuild_text san trim m a b)) = version m"
  "distro (fst (get_pkgbuild_text san trim m a b)) = distro m"
  "depends (fst (get_pkgbuild_text san trim m a b)) = depends m"
  "depends_external (fst (get_pkgbuild_text san trim m a b)) = depends_external m"
  by (simp_all add: get_pkgbuild_text_def Let_def)

lemma text_of_entries:
  "snd (get_pkgbuild_text san trim m a b) =
   (case rendered_entries san trim m of
      Inl e \<Rightarrow> Inl e
    | Inr es \<Rightarrow> Inr (str_join ''\<newline>'' es))"
  by (simp add: get_pkgbuild_text_def rendered_entries_def Let_def)

lemma pkgbuild_entries_sep:
  assumes "version m = Some v" and "CHR ''-'' \<in> set v"
  shows "\<exists>es. pkgbuild_entries m = Inr es \<and> length es = 17 \<and>
           es ! 5 = ''pkgver='' @ before_first CHR ''-'' v \<and>
           es ! 7 = ''pkgrel='' @ drop 1 (before_first CHR ''-'' (after_first CHR ''-'' v)) \<and>
           es ! 11 = makedepends_line m"
  unfolding pkgbuild_entries_def
  by (simp only: assms(1) option.case sum.case str_split_hd
        str_split_second[OF assms(2)] Let_def) simp

lemma pkgbuild_entries_no_sep:
  assumes "version m = Some v" and "CHR ''-'' \<notin> set v"
  shows "pkgbuild_entries m = Inl IndexError"
  unfolding pkgbuild_entries_def
  by (simp only: assms(1) option.case sum.case str_split_hd
        str_split_second_no_sep[OF assms(2)])

lemma pkgbuild_entries_Inr:
  assumes "pkgbuild_entries m = Inr es"
  shows "\<exists>v. version m = Some v \<and> CHR ''-'' \<in> set v"
proof (cases "version m")
  case None
  with assms show ?thesis by (simp add: pkgbuild_entries_def)
next
  case (Some v)
  with assms pkgbuild_entries_no_sep[of m v] show ?thesis by auto
qed

lemma render_succeeds:
  assumes "version m = Some v" and "CHR ''-'' \<in> set v"
  shows "\<not> isl (snd (get_pkgbuild_text san trim m a b))"
proof -
  let ?m' = "fst (get_pkgbuild_text san trim m org org_license)"
  have "version ?m' = Some v" using assms(1) by (simp add: cleaned_fields)
  from pkgbuild_entries_sep[OF this assms(2)]
  obtain es where "pkgbuild_entries ?m' = Inr es" by blast
  then show ?thesis by (simp add: text_of_entries rendered_entries_def)
qed

lemma rendered_version_entries:
  assumes "version m = Some v" and "CHR ''-'' \<in> set v"
  shows "rendered_entry san trim m 5 = Inr (''pkgver='' @ before_first CHR ''-'' v)"
    and "rendered_entry san trim m 7 =
           Inr (''pkgrel='' @ drop 1 (before_first CHR ''-'' (after_first CHR ''-'' v)))"
proof -
  let ?m' = "fst (get_pkgbuild_text san trim m org org_license)"
  have "version ?m' = Some v" using assms(1) by (simp add: cleaned_fields)
  from pkgbuild_entries_sep[OF this assms(2)]
  obtain es where es: "pkgbuild_entries ?m' = Inr es" "length es = 17"
    "es ! 5 = ''pkgver='' @ before_first CHR ''-'' v"
    "es ! 7 = ''pkgrel='' @ drop 1 (before_first CHR ''-'' (after_first CHR ''-'' v))"
    by blast
  show "rendered_entry san trim m 5 = Inr (''pkgver='' @ before_first CHR ''-'' v)"
    using es by (simp add: rendered_entry_def rendered_entries_def py_index_def)
  show "rendered_entry san trim m 7 =
           Inr (''pkgrel='' @ drop 1 (before_first CHR ''-'' (after_first CHR ''-'' v)))"
    using es by (simp add: rendered_entry_def rendered_entries_def py_index_def)
qed

lemma example_version: "version (example_model v) = Some v"
  by (simp add: example_model_def)

lemma entry_of_entries:
  "rendered_entries san trim m = Inr es \<Longrightarrow> k < length es \<Longrightarrow>
   rendered_entry san trim m k = Inr (es ! k)"
  by (simp add: rendered_entry_def py_index_def)

text \<open>
  C7 as stated fails for a version with a second separator: the spec takes the release
  segment to be the substring after the first \<open>-\<close>, which for \<open>1.2.3-r4-5\<close> gives
  \<open>pkgrel=4-5\<close>, while the code takes the second element of the split and renders
  \<open>pkgrel=4\<close>.
\<close>

theorem pkgrel_counterexample:
  "CHR ''-'' \<in> set ''1.2.3-r4-5'' \<and>
   rendered_entry sanitize_string_spec (trim_string_spec 80 ''[...]'')
     (example_model ''1.2.3-r4-5'') 7 = Inr ''pkgrel=4'' \<and>
   ''pkgrel='' @ drop 1 (after_first CHR ''-'' ''1.2.3-r4-5'') = ''pkgrel=4-5''"
proof -
  have s: "CHR ''-'' \<in> set ''1.2.3-r4-5''" by simp
  have "rendered_entry sanitize_string_spec (trim_string_spec 80 ''[...]'')
          (example_model ''1.2.3-r4-5'') 7 =
        Inr (''pkgrel='' @ drop 1 (before_first CHR ''-'' (after_first CHR ''-'' ''1.2.3-r4-5'')))"
    using example_version s by (rule rendered_version_entries(2))
  then show ?thesis by (simp add: before_first_def after_first_def)
qed

text \<open>
  C7, as amended. For every version with at least one \<open>-\<close>, rendering returns the
  entries joined by newlines; the \<open>pkgver\<close> entry is the substring of the version
  before the first \<open>-\<close>, and the \<open>pkgrel\<close> entry is the part between the first \<open>-\<close>
  and the next one (or the end) without its first character. When the version has
  exactly one \<open>-\<close>, that is the substring after the first \<open>-\<close> without its first
  character, as for \<open>1.2.3-r4\<close> and \<open>0.9.0-p10\<close>.
\<close>

theorem pkgver_pkgrel_fields:
  assumes "version m = Some v" and "CHR ''-'' \<in> set v"
  shows "\<exists>es. rendered_entries san trim m = Inr es \<and>
           snd (get_pkgbuild_text san trim m distributor license_text) =
             Inr (str_join ''\<newline>'' es) \<and>
           length es = 17 \<and>
           es ! 5 = ''pkgver='' @ before_first CHR ''-'' v \<and>
           es ! 7 = ''pkgrel='' @ drop 1 (before_first CHR ''-'' (after_first CHR ''-'' v)) \<and>
           (CHR ''-'' \<notin> set (after_first CHR ''-'' v) \<longrightarrow>
              es ! 7 = ''pkgrel='' @ drop 1 (after_first CHR ''-'' v))"
proof -
  let ?m' = "fst (get_pkgbuild_text san trim m org org_license)"
  have "version ?m' = Some v" using assms(1) by (simp add: cleaned_fields)
  from pkgbuild_entries_sep[OF this assms(2)]
  obtain es where es: "pkgbuild_entries ?m' = Inr es" "length es = 17"
    "es ! 5 = ''pkgver='' @ before_first CHR ''-'' v"
    "es ! 7 = ''pkgrel='' @ drop 1 (before_first CHR ''-'' (after_first CHR ''-'' v))"
    by blast
  have r: "rendered_entries san trim m = Inr es"
    using es(1) by (simp add: rendered_entries_def)
  have t: "snd (get_pkgbuild_text san trim m distributor license_text) =
             Inr (str_join ''\<newline>'' es)"
    by (simp add: text_of_entries r)
  have "CHR ''-'' \<notin> set (after_first CHR ''-'' v) \<longrightarrow>
          es ! 7 = ''pkgrel='' @ drop 1 (after_first CHR ''-'' v)"
    using es(4) by (simp add: before_first_no_sep)
  with r t es(2,3,4) show ?thesis by blast
qed

text \<open>
  C8. For every version without \<open>-\<close>, rendering produces no text but raises
  \<open>IndexError\<close> (the index \<open>[1]\<close> of the split), and \<open>regenerate_pkg\<close>, which only
  handles \<open>UnresolvedDependency\<close> and re-raises \<open>KeyError\<close>, lets it pass.
\<close>

theorem missing_separator_raises:
  assumes "CHR ''-'' \<notin> set v"
  shows "snd (get_pkgbuild_text san trim (m\<lparr>version := Some v\<rparr>) distributor license_text)
           = Inl IndexError \<and>
         regenerate_pkg_render san trim m pkg v ps r2 = Inl IndexError"
proof -
  have a: "\<And>(q::PkgBuild) a b. version q = Some v \<Longrightarrow>
              snd (get_pkgbuild_text san trim q a b) = Inl IndexError"
  proof -
    fix q :: PkgBuild and a b assume q: "version q = Some v"
    let ?q' = "fst (get_pkgbuild_text san trim q org org_license)"
    have "version ?q' = Some v" using q by (simp add: cleaned_fields)
    then have "pkgbuild_entries ?q' = Inl IndexError"
      using assms by (rule pkgbuild_entries_no_sep)
    then show "snd (get_pkgbuild_text san trim q a b) = Inl IndexError"
      by (simp add: text_of_entries rendered_entries_def)
  qed
  have 1: "snd (get_pkgbuild_text san trim (m\<lparr>version := Some v\<rparr>) distributor license_text)
           = Inl IndexError"
    by (rule a) simp
  let ?c = "m\<lparr>name := Some pkg, version := Some v, patches := ps, is_ros2 := r2\<rparr>"
  have "snd (get_pkgbuild_text san trim ?c org org_license) = Inl IndexError"
    by (rule a) simp
  then have 2: "regenerate_pkg_render san trim m pkg v ps r2 = Inl IndexError"
    by (cases "get_pkgbuild_text san trim ?c org org_license")
       (simp add: regenerate_pkg_render_def pkgbuild_text_def Let_def)
  from 1 2 show ?thesis by blast
qed

text \<open>
  C9. Whenever rendering returns a text, the text is the entries joined by newlines and
  the \<open>makedepends\<close> entry holds, joined by spaces, the names of \<open>depends\<close> in order,
  each prefixed with \<open>ros-\<close>, the distribution and \<open>-\<close>, then the names of
  \<open>depends_external\<close> in order, every entry that begins with \<open>python3\<close> made to begin
  with \<open>python\<close>.
\<close>

theorem makedepends_field:
  assumes "snd (get_pkgbuild_text san trim m distributor license_text) = Inr txt"
  shows "\<exists>es. rendered_entries san trim m = Inr es \<and>
           txt = str_join ''\<newline>'' es \<and>
           length es = 17 \<and>
           es ! 11 = ''makedepends=('' @ makedepends_spec m @ '')''"
proof -
  let ?m' = "fst (get_pkgbuild_text san trim m org org_license)"
  from assms obtain es0 where es0: "rendered_entries san trim m = Inr es0"
    by (cases "rendered_entries san trim m") (simp_all add: text_of_entries)
  then have "pkgbuild_entries ?m' = Inr es0" by (simp add: rendered_entries_def)
  then obtain v where v: "version ?m' = Some v" "CHR ''-'' \<in> set v"
    using pkgbuild_entries_Inr by blast
  from pkgbuild_entries_sep[OF v]
  obtain es where es: "pkgbuild_entries ?m' = Inr es" "length es = 17"
    "es ! 11 = makedepends_line ?m'"
    by blast
  have r: "rendered_entries san trim m = Inr es"
    using es(1) by (simp add: rendered_entries_def)
  have t: "txt = str_join ''\<newline>'' es"
    using assms by (simp add: text_of_entries r)
  have "makedepends_spec ?m' = makedepends_spec m"
    by (simp only: makedepends_spec_def cleaned_fields)
  then have "es ! 11 = ''makedepends=('' @ makedepends_spec m @ '')''"
    using es(3) by (simp only: makedepends_line_spec)
  with r t es(2) show ?thesis by blast
qed

text \<open>The two versions named in the spec.\<close>

theorem pkgver_pkgrel_fields_witness:
  "version (example_model ''1.2.3-r4'') = Some ''1.2.3-r4'' \<and>
   CHR ''-'' \<in> set ''1.2.3-r4'' \<and>
   rendered_entry sanitize_string_spec (trim_string_spec 80 ''[...]'')
     (example_model ''1.2.3-r4'') 5 = Inr ''pkgver=1.2.3'' \<and>
   rendered_entry sanitize_string_spec (trim_string_spec 80 ''[...]'')
     (example_model ''1.2.3-r4'') 7 = Inr ''pkgrel=4'' \<and>
   version (example_model ''0.9.0-p10'') = Some ''0.9.0-p10'' \<and>
   CHR ''-'' \<in> set ''0.9.0-p10'' \<and>
   rendered_entry sanitize_string_spec (trim_string_spec 80 ''[...]'')
     (example_model ''0.9.0-p10'') 5 = Inr ''pkgver=0.9.0'' \<and>
   rendered_entry sanitize_string_spec (trim_string_spec 80 ''[...]'')
     (example_model ''0.9.0-p10'') 7 = Inr ''pkgrel=10''"
proof -
  let ?san = sanitize_string_spec and ?trim = "trim_string_spec 80 ''[...]''"
  have s1: "CHR ''-'' \<in> set ''1.2.3-r4''" and s2: "CHR ''-'' \<in> set ''0.9.0-p10''"
    by simp_all
  have n1: "CHR ''-'' \<notin> set (after_first CHR ''-'' ''1.2.3-r4'')"
    and n2: "CHR ''-'' \<notin> set (after_first CHR ''-'' ''0.9.0-p10'')"
    by (simp_all add: after_first_def)
  from pkgver_pkgrel_fields[OF example_version s1, of ?san ?trim org org_license] n1
  obtain es where es: "rendered_entries ?san ?trim (example_model ''1.2.3-r4'') = Inr es"
    "length es = 17" "es ! 5 = ''pkgver='' @ before_first CHR ''-'' ''1.2.3-r4''"
    "es ! 7 = ''pkgrel='' @ drop 1 (after_first CHR ''-'' ''1.2.3-r4'')"
    by blast
  from pkgver_pkgrel_fields[OF example_version s2, of ?san ?trim org org_license] n2
  obtain fs where fs: "rendered_entries ?san ?trim (example_model ''0.9.0-p10'') = Inr fs"
    "length fs = 17" "fs ! 5 = ''pkgver='' @ before_first CHR ''-'' ''0.9.0-p10''"
    "fs ! 7 = ''pkgrel='' @ drop 1 (after_first CHR ''-'' ''0.9.0-p10'')"
    by blast
  have a: "rendered_entry ?san ?trim (example_model ''1.2.3-r4'') 5 = Inr ''pkgver=1.2.3''"
    using entry_of_entries[OF es(1), of 5] es(2,3) by (simp add: before_first_def)
  have b: "rendered_entry ?san ?trim (example_model ''1.2.3-r4'') 7 = Inr ''pkgrel=4''"
    using entry_of_entries[OF es(1), of 7] es(2,4) by (simp add: after_first_def)
  have c: "rendered_entry ?san ?trim (example_model ''0.9.0-p10'') 5 = Inr ''pkgver=0.9.0''"
    using entry_of_entries[OF fs(1), of 5] fs(2,3) by (simp add: before_first_def)
  have d: "rendered_entry ?san ?trim (example_model ''0.9.0-p10'') 7 = Inr ''pkgrel=10''"
    using entry_of_entries[OF fs(1), of 7] fs(2,4) by (simp add: after_first_def)
  from a b c d s1 s2 example_version show ?thesis by blast
qed

theorem missing_separator_raises_witness:
  "CHR ''-'' \<notin> set ''1.2.3'' \<and>
   snd (get_pkgbuild_text sanitize_string_spec (trim_string_spec 80 ''[...]'')
          ((example_model ''1.2.3-r4'')\<lparr>version := Some ''1.2.3''\<rparr>) org org_license)
     = Inl IndexError \<and>
   regenerate_pkg_render sanitize_string_spec (trim_string_spec 80 ''[...]'')
     (example_model ''1.2.3-r4'') ''foo'' ''1.2.3'' None False = Inl IndexError"
proof -
  have n: "CHR ''-'' \<notin> set ''1.2.3''" by simp
  from missing_separator_raises[OF n] n show ?thesis by blast
qed

text \<open>The external build dependency \<open>python3-numpy\<close> is rendered as \<open>python-numpy\<close>.\<close>

theorem makedepends_field_witness:
  "\<not> isl (snd (get_pkgbuild_text sanitize_string_spec (trim_string_spec 80 ''[...]'')
               (example_model ''1.2.3-r4'') org org_license)) \<and>
   depends_external (example_model ''1.2.3-r4'') = [''python3-numpy''] \<and>
   rendered_entry sanitize_string_spec (trim_string_spec 80 ''[...]'')
     (example_model ''1.2.3-r4'') 11 = Inr ''makedepends=(ros-humble-roscpp python-numpy)''"
proof -
  let ?san = sanitize_string_spec and ?trim = "trim_string_spec 80 ''[...]''"
  let ?r = "snd (get_pkgbuild_text ?san ?trim (example_model ''1.2.3-r4'') org org_license)"
  have s1: "CHR ''-'' \<in> set ''1.2.3-r4''" by simp
  have ok: "\<not> isl ?r" using example_version s1 by (rule render_succeeds)
  then have h: "?r = Inr (projr ?r)" by simp
  from makedepends_field[OF h]
  obtain es where es: "rendered_entries ?san ?trim (example_model ''1.2.3-r4'') = Inr es"
    "length es = 17"
    "es ! 11 = ''makedepends=('' @ makedepends_spec (example_model ''1.2.3-r4'') @ '')''"
    by blast
  have m: "makedepends_spec (example_model ''1.2.3-r4'') = ''ros-humble-roscpp python-numpy''"
    by (simp add: makedepends_spec_def example_model_def python_generic_def)
  have e: "rendered_entry ?san ?trim (example_model ''1.2.3-r4'') 11 =
             Inr ''makedepends=(ros-humble-roscpp python-numpy)''"
    using entry_of_entries[OF es(1), of 11] es(2,3) by (simp add: m)
  have d: "depends_external (example_model ''1.2.3-r4'') = [''python3-numpy'']"
    by (simp add: example_model_def)
  from ok d e show ?thesis by blast
qed

text \<open>
  C1 as stated fails: a model with the build type \<open>unknown\<close> and a well-formed version
  is rendered to a text; nothing is raised.
\<close>

theorem unknown_build_type_counterexample:
  "build_type ((example_model ''1.2.3-r4'')\<lparr>build_type := ''unknown''\<rparr>) = ''unknown'' \<and>
   ''unknown'' \<notin> set [''catkin'', ''cmake'', ''ament_python'', ''ament_cmake''] \<and>
   \<not> isl (snd (get_pkgbuild_text sanitize_string_spec (trim_string_spec 80 ''[...]'')
               ((example_model ''1.2.3-r4'')\<lparr>build_type := ''unknown''\<rparr>) org org_license))"
proof -
  have v: "version ((example_model ''1.2.3-r4'')\<lparr>build_type := ''unknown''\<rparr>) = Some ''1.2.3-r4''"
    by (simp add: example_model_def)
  have s1: "CHR ''-'' \<in> set ''1.2.3-r4''" by simp
  have "\<not> isl (snd (get_pkgbuild_text sanitize_string_spec (trim_string_spec 80 ''[...]'')
               ((example_model ''1.2.3-r4'')\<lparr>build_type := ''unknown''\<rparr>) org org_license))"
    using v s1 by (rule render_succeeds)
  then show ?thesis by simp
qed

text \<open>
  C1, as amended. \<open>UnknownBuildType\<close> is raised by \<open>get_inherit_line\<close>, for exactly
  the build types outside \<open>catkin\<close>, \<open>cmake\<close>, \<open>ament_python\<close> and \<open>ament_cmake\<close>.
  \<open>get_pkgbuild_text\<close> does not call it: rendering never raises \<open>UnknownBuildType\<close>
  and its result is the same for every build type.
\<close>

theorem unknown_build_type_inherit_line_only:
  "(build_type m \<notin> set [''catkin'', ''cmake'', ''ament_python'', ''ament_cmake''] \<longrightarrow>
      get_inherit_line m = Inl (UnknownBuildType (build_type m))) \<and>
   (build_type m \<in> set [''catkin'', ''cmake'', ''ament_python'', ''ament_cmake''] \<longrightarrow>
      \<not> isl (get_inherit_line m)) \<and>
   snd (get_pkgbuild_text san trim m distributor license_text) \<noteq> Inl (UnknownBuildType bt) \<and>
   snd (get_pkgbuild_text san trim (m\<lparr>build_type := bt\<rparr>) distributor license_text) =
     snd (get_pkgbuild_text san trim m distributor license_text)"
proof -
  have 1: "build_type m \<notin> set [''catkin'', ''cmake'', ''ament_python'', ''ament_cmake''] \<longrightarrow>
      get_inherit_line m = Inl (UnknownBuildType (build_type m))"
    by (simp add: get_inherit_line_def)
  have 2: "build_type m \<in> set [''catkin'', ''cmake'', ''ament_python'', ''ament_cmake''] \<longrightarrow>
      \<not> isl (get_inherit_line m)"
    by (auto simp: get_inherit_line_def)
  have 3: "snd (get_pkgbuild_text san trim m distributor license_text) \<noteq> Inl (UnknownBuildType bt)"
    using render_error[of san trim m distributor license_text "UnknownBuildType bt"] by auto
  let ?d = "trim (san (description m) (illegal_desc_chars m))"
  have "pkgbuild_entries (m\<lparr>build_type := bt, description := ?d\<rparr>)
        = pkgbuild_entries (m\<lparr>description := ?d\<rparr>)"
    by (rule pkgbuild_entries_cong) simp_all
  then have 4: "snd (get_pkgbuild_text san trim (m\<lparr>build_type := bt\<rparr>) distributor license_text) =
     snd (get_pkgbuild_text san trim m distributor license_text)"
    by (simp add: get_pkgbuild_text_def Let_def)
  from 1 2 3 4 show ?thesis by blast
qed

theorem unknown_build_type_inherit_line_only_witness:
  "build_type ((example_model ''1.2.3-r4'')\<lparr>build_type := ''unknown''\<rparr>)
     \<notin> set [''catkin'', ''cmake'', ''ament_python'', ''ament_cmake''] \<and>
   get_inherit_line ((example_model ''1.2.3-r4'')\<lparr>build_type := ''unknown''\<rparr>) =
     Inl (UnknownBuildType ''unknown'') \<and>
   build_type (example_model ''1.2.3-r4'')
     \<in> set [''catkin'', ''cmake'', ''ament_python'', ''ament_cmake''] \<and>
   \<not> isl (get_inherit_line (example_model ''1.2.3-r4''))"
proof -
  have a: "build_type ((example_model ''1.2.3-r4'')\<lparr>build_type := ''unknown''\<rparr>) = ''unknown''"
    by simp
  have b: "''unknown'' \<notin> set [''catkin'', ''cmake'', ''ament_python'', ''ament_cmake'']"
    by simp
  have c: "build_type (example_model ''1.2.3-r4'')
     \<in> set [''catkin'', ''cmake'', ''ament_python'', ''ament_cmake'']"
    by (simp add: example_model_def PkgBuild_init_def)
  show ?thesis
    using a b c
      unknown_build_type_inherit_line_only[of "(example_model ''1.2.3-r4'')\<lparr>build_type := ''unknown''\<rparr>"]
      unknown_build_type_inherit_line_only[of "example_model ''1.2.3-r4''"]
    by simp
qed

subsection \<open>The builder\<close>

lemma run_phase:
  "foldl (\<lambda>p d. add_run_depend p d (d \<in> N)) p xs =
   p\<lparr>rdepends := rdepends p @ filter (\<lambda>d. d \<in> N) xs,
     rdepends_external := rdepends_external p @
        filter (\<lambda>d. d \<notin> N \<and> d \<notin> set depend_only_pkgs) xs,
     depends_external := depends_external p @
        filter (\<lambda>d. d \<notin> N \<and> d \<in> set depend_only_pkgs) xs\<rparr>"
  by (induction xs arbitrary: p) (simp_all add: add_run_depend_def)

lemma build_phase:
  "foldl (\<lambda>p d. add_build_depend p d (d \<in> N)) p xs =
   p\<lparr>depends := depends p @
        filter (\<lambda>d. d \<in> N \<and> d \<notin> set (rdepends p) \<and> d \<notin> set (rdepends_external p)) xs,
     depends_external := depends_external p @
        filter (\<lambda>d. d \<notin> N \<and> d \<notin> set (rdepends p) \<and> d \<notin> set (rdepends_external p)) xs\<rparr>"
  by (induction xs arbitrary: p) (simp_all add: add_build_depend_def)

lemma test_phase:
  "foldl (\<lambda>p d. add_test_depend p d (d \<in> N)) p xs =
   p\<lparr>tdepends := tdepends p @ filter (\<lambda>d. d \<in> N) xs,
     tdepends_external := tdepends_external p @ filter (\<lambda>d. d \<notin> N) xs\<rparr>"
  by (induction xs arbitrary: p) (simp_all add: add_test_depend_def)

lemma keyword_phase:
  "foldl (\<lambda>p k. add_keyword p k False) p ks =
   p\<lparr>keys := keys p @ map (\<lambda>k. \<lparr>arch = k, stable = False\<rparr>) ks\<rparr>"
  by (induction ks arbitrary: p) (simp_all add: add_keyword_def)

lemma gen_None:
  "fst (gen_pkgbuild_for_package dn pn uri names btd bd rd td None) =
   classified dn uri names btd bd rd td"
proof -
  have g: "(\<lambda>d. d \<in> set names \<and> (d \<in> set rd \<longrightarrow> d \<notin> set names) \<and>
                 (d \<in> set rd \<longrightarrow> d \<in> set names \<or> d \<in> set depend_only_pkgs))
         = (\<lambda>d. d \<in> set names \<and> d \<notin> set rd)"
    by (auto simp: fun_eq_iff)
  have h: "(\<lambda>d. d \<notin> set names \<and> (d \<in> set rd \<longrightarrow> d \<notin> set names) \<and>
                 (d \<in> set rd \<longrightarrow> d \<in> set names \<or> d \<in> set depend_only_pkgs))
         = (\<lambda>d. d \<notin> set names \<and> (d \<in> set rd \<longrightarrow> d \<in> set depend_only_pkgs))"
    by (auto simp: fun_eq_iff)
  show ?thesis
    unfolding gen_pkgbuild_for_package_def Let_def classified_def
    by (simp add: run_phase build_phase test_phase keyword_phase)
       (simp add: PkgBuild_init_def g h)
qed

lemma gen_Some:
  "gen_pkgbuild_for_package dn pn uri names btd bd rd td (Some md) =
   ((fst (gen_pkgbuild_for_package dn pn uri names btd bd rd td None))
      \<lparr>upstream_license := pkg_upstream_license md,
       description := pkg_description md,
       homepage := pkg_homepage md,
       build_type := pkg_build_type md\<rparr>, [])"
  by (simp add: gen_pkgbuild_for_package_def Let_def)

lemma gen_None_warning:
  "snd (gen_pkgbuild_for_package dn pn uri names btd bd rd td None) =
   [''fetch metadata for package '' @ pn]"
  by (simp add: gen_pkgbuild_for_package_def Let_def)

lemma classified_disjoint:
  "build_run_disjoint (classified dn uri names btd bd rd td)"
  by (auto simp: build_run_disjoint_def classified_def list_all_iff)

lemma add_build_depend_disjoint:
  "build_run_disjoint p \<Longrightarrow> build_run_disjoint (add_build_depend p d i)"
  by (simp add: build_run_disjoint_def add_build_depend_def)

lemma add_test_depend_disjoint:
  "build_run_disjoint (add_test_depend p d i) = build_run_disjoint p"
  by (simp add: build_run_disjoint_def add_test_depend_def)

text \<open>
  C3 as stated fails: after \<open>rclcpp\<close> has been added as a run dependency the buckets
  are exclusive, and adding it as a test dependency puts it into a second bucket.
\<close>

theorem exclusivity_counterexample:
  "exclusive (add_run_depend PkgBuild_init ''rclcpp'' True) \<and>
   \<not> exclusive (add_test_depend (add_run_depend PkgBuild_init ''rclcpp'' True) ''rclcpp'' True)"
  by (simp add: exclusive_def bucket_count_def buckets_def add_run_depend_def add_test_depend_def
        PkgBuild_init_def depend_only_pkgs_def)

text \<open>
  C3, as amended. The insertion methods keep build buckets and run buckets apart only
  as far as the guard of \<open>add_build_depend\<close> does: when no name of a build bucket is in
  a run bucket, this still holds after \<open>add_build_depend\<close>, and \<open>add_test_depend\<close> does
  not change it. The builder inserts run dependencies first, so in the model it returns
  no name of a build bucket is in a run bucket. Test buckets are not kept apart from
  the others.
\<close>

theorem build_run_guard:
  "(build_run_disjoint p \<longrightarrow> build_run_disjoint (add_build_depend p d i)) \<and>
   build_run_disjoint (add_test_depend p d i) = build_run_disjoint p \<and>
   build_run_disjoint (fst (gen_pkgbuild_for_package dn pn uri names btd bd rd td fetched))"
proof -
  have 1: "build_run_disjoint p \<longrightarrow> build_run_disjoint (add_build_depend p d i)"
    by (simp add: add_build_depend_disjoint)
  have 2: "build_run_disjoint (add_test_depend p d i) = build_run_disjoint p"
    by (rule add_test_depend_disjoint)
  have n: "build_run_disjoint (fst (gen_pkgbuild_for_package dn pn uri names btd bd rd td None))"
    by (simp only: gen_None classified_disjoint)
  have 3: "build_run_disjoint (fst (gen_pkgbuild_for_package dn pn uri names btd bd rd td fetched))"
  proof (cases fetched)
    case None
    with n show ?thesis by simp
  next
    case (Some md)
    with n show ?thesis by (simp add: gen_Some build_run_disjoint_def)
  qed
  from 1 2 3 show ?thesis by blast
qed

theorem build_run_guard_witness:
  "build_run_disjoint run_model \<and>
   build_run_disjoint (add_build_depend run_model ''cmake'' False) \<and>
   depends_external (add_build_depend run_model ''cmake'' False) = [''cmake''] \<and>
   build_run_disjoint (add_build_depend run_model ''roscpp'' True) \<and>
   depends (add_build_depend run_model ''roscpp'' True) = []"
proof -
  have a: "build_run_disjoint run_model"
    by (simp add: build_run_disjoint_def run_model_def PkgBuild_init_def)
  have b: "depends_external (add_build_depend run_model ''cmake'' False) = [''cmake'']"
    by (simp add: add_build_depend_def run_model_def PkgBuild_init_def)
  have c: "depends (add_build_depend run_model ''roscpp'' True) = []"
    by (simp add: add_build_depend_def run_model_def PkgBuild_init_def)
  show ?thesis
    using a b c build_run_guard[of run_model "''cmake''" False]
      build_run_guard[of run_model "''roscpp''" True]
    by blast
qed

text \<open>
  C10. When the fetch of the package metadata fails, the builder returns the model
  with all six buckets (and the keywords) as the loops classified them and the licence,
  description, homepage and build type of a fresh model, and one warning. When the
  fetch succeeds, it returns the same model with those four fields taken from the
  metadata, and no warning.
\<close>

theorem metadata_fetch_outcome:
  "gen_pkgbuild_for_package dn pn uri names btd bd rd td None =
     (classified dn uri names btd bd rd td, [''fetch metadata for package '' @ pn]) \<and>
   gen_pkgbuild_for_package dn pn uri names btd bd rd td (Some md) =
     ((classified dn uri names btd bd rd td)
        \<lparr>upstream_license := pkg_upstream_license md,
         description := pkg_description md,
         homepage := pkg_homepage md,
         build_type := pkg_build_type md\<rparr>, []) \<and>
   upstream_license (classified dn uri names btd bd rd td) = [''LGPL-2''] \<and>
   description (classified dn uri names btd bd rd td) = '''' \<and>
   homepage (classified dn uri names btd bd rd td) = ''https://wiki.ros.org'' \<and>
   build_type (classified dn uri names btd bd rd td) = ''catkin''"
proof -
  have 1: "gen_pkgbuild_for_package dn pn uri names btd bd rd td None =
     (classified dn uri names btd bd rd td, [''fetch metadata for package '' @ pn])"
    using gen_None[of dn pn uri names btd bd rd td] gen_None_warning[of dn pn uri names btd bd rd td]
    by (simp add: prod_eq_iff)
  have 2: "gen_pkgbuild_for_package dn pn uri names btd bd rd td (Some md) =
     ((classified dn uri names btd bd rd td)
        \<lparr>upstream_license := pkg_upstream_license md,
         description := pkg_description md,
         homepage := pkg_homepage md,
         build_type := pkg_build_type md\<rparr>, [])"
    by (simp only: gen_Some gen_None)
  have 3: "upstream_license (classified dn uri names btd bd rd td) = [''LGPL-2''] \<and>
   description (classified dn uri names btd bd rd td) = '''' \<and>
   homepage (classified dn uri names btd bd rd td) = ''https://wiki.ros.org'' \<and>
   build_type (classified dn uri names btd bd rd td) = ''catkin''"
    by (simp add: classified_def PkgBuild_init_def)
  from 1 2 3 show ?thesis by blast
qed

end
